theory Spec2Isabelle
  imports Complex_Main "HOL-Library.Word" "HOL-Library.AList"
begin

section \<open>JavaScript strings\<close>

text \<open>
  A JavaScript string is a sequence of UTF-16 code units: \<open>row[i]\<close>, \<open>length\<close> and
  \<open>trim\<close> all work on code units. Program literals are ASCII and are written through
  \<open>str\<close>.
\<close>

type_synonym code_unit = "16 word"
type_synonym js_string = "code_unit list"

definition str :: "string \<Rightarrow> js_string" where
  "str s = map of_char s"

definition dquote :: code_unit where
  "dquote = 0x22"

definition comma :: code_unit where
  "comma = 0x2C"

definition newline :: code_unit where
  "newline = 0x0A"

text \<open>
  \<open>String.prototype.trim\<close> removes WhiteSpace and LineTerminator code points from both
  ends: TAB, LF, VT, FF, CR, SP, NBSP, the Unicode space separators and BOM. All of them
  lie in the basic plane, so each is one code unit.
\<close>

definition isWhiteSpace :: "code_unit \<Rightarrow> bool" where
  "isWhiteSpace c \<longleftrightarrow>
     c \<in> {0x0009, 0x000A, 0x000B, 0x000C, 0x000D, 0x0020, 0x00A0, 0x1680,
          0x2028, 0x2029, 0x202F, 0x205F, 0x3000, 0xFEFF}
     \<or> (0x2000 \<le> c \<and> c \<le> 0x200A)"

definition trim :: "js_string \<Rightarrow> js_string" where
  "trim s = rev (dropWhile isWhiteSpace (rev (dropWhile isWhiteSpace s)))"

definition endsWith :: "js_string \<Rightarrow> js_string \<Rightarrow> bool" where
  "endsWith s suffix \<longleftrightarrow>
     length suffix \<le> length s \<and> drop (length s - length suffix) s = suffix"

text \<open>\<open>s.split(d)\<close> for a one-unit separator: the empty string gives one empty piece.\<close>

fun split :: "code_unit \<Rightarrow> js_string \<Rightarrow> js_string list" where
  "split d [] = [[]]"
| "split d (c # cs) =
     (if c = d then [] # split d cs
      else (case split d cs of [] \<Rightarrow> [[c]] | piece # pieces \<Rightarrow> (c # piece) # pieces))"

text \<open>
  A value parsed from a JSON body, and its truthiness as the operand of \<open>||\<close>: \<open>null\<close>,
  \<open>false\<close>, \<open>0\<close> and the empty string are falsy, every array and object is truthy.
\<close>

datatype json =
  JNull
| JBool bool
| JNumber rat
| JString js_string
| JArray "json list"
| JObject "(js_string \<times> json) list"

fun truthy :: "json \<Rightarrow> bool" where
  "truthy JNull = False"
| "truthy (JBool b) = b"
| "truthy (JNumber n) = (n \<noteq> 0)"
| "truthy (JString s) = (s \<noteq> [])"
| "truthy (JArray xs) = True"
| "truthy (JObject kvs) = True"

section \<open>The request and response types (types/evaluation.ts)\<close>

datatype MetricIdentifier = Accuracy | Hallucination | Authoritativeness | Usefulness

datatype Rating = Great | Good | Fair | Poor

text \<open>The literal type \<open>3 | 2 | 1 | 0\<close> of the field \<open>score\<close>.\<close>

datatype Score = S3 | S2 | S1 | S0

datatype Badge = Platinum | Gold | Silver | Bronze

fun score_value :: "Score \<Rightarrow> nat" where
  "score_value S3 = 3"
| "score_value S2 = 2"
| "score_value S1 = 1"
| "score_value S0 = 0"

text \<open>
  \<open>MetricEvaluation\<close> declares \<open>rating\<close>, \<open>score\<close> and \<open>badge\<close> as three independent
  unions; nothing in the type ties one field to another.
\<close>

record MetricEvaluation =
  metric :: MetricIdentifier
  rating :: Rating
  score :: Score
  badge :: Badge
  reasoning :: js_string

text \<open>\<open>overall_score\<close> is a \<open>number\<close>; it is modelled as an exact rational.\<close>

record OverallEvaluation =
  overall_rating :: Rating
  overall_score :: rat
  overall_badge :: Badge
  summary :: js_string

text \<open>
  The four per-metric fields are optional (\<open>accuracy?: MetricEvaluation\<close>): an absent
  field, and the \<open>null\<close> the backend sends for a metric that was not requested, are
  \<open>None\<close>.
\<close>

record EvaluationResponse =
  accuracy :: "MetricEvaluation option"
  hallucination :: "MetricEvaluation option"
  authoritativeness :: "MetricEvaluation option"
  usefulness :: "MetricEvaluation option"
  overall :: OverallEvaluation
  evaluation_id :: js_string
  processing_time :: rat

record UploadedFileData =
  uf_name :: js_string
  uf_content :: js_string
  uf_type :: js_string
  uf_size :: nat

text \<open>
  \<open>eval_metrices\<close> is kept as a list of strings: \<open>handleMetricToggle\<close> takes any string
  and casts it into the array.
\<close>

record EvaluationRequest =
  model :: "js_string list"
  eval_metrices :: "js_string list"
  user_query :: js_string
  ai_response :: js_string
  chunk_1 :: js_string
  chunk_2 :: js_string
  chunk_3 :: js_string
  chunk_4 :: js_string
  chunk_5 :: js_string
  uploaded_file :: "UploadedFileData option"

section \<open>The evaluation form (EvaluationForm.tsx)\<close>

text \<open>The browser's \<open>File\<close>: the three properties the form reads.\<close>

record File =
  file_name :: js_string
  file_type :: js_string
  file_size :: nat

text \<open>
  The component's state hooks. \<open>errors\<close> is an object from field names to messages; an
  association list keeps the order of its keys, and \<open>AList.update\<close> is the spread
  \<open>{...prev, [key]: value}\<close>. A CSV record is an object of the same kind, from field names
  to cell texts.
\<close>

record FormState =
  formData :: EvaluationRequest
  errors :: "(string \<times> string) list"
  uploadedFile :: "File option"
  isUploading :: bool
  csvRecords :: "(string \<times> js_string) list list"
  selectedRecordIndex :: nat

definition initialFormData :: EvaluationRequest where
  "initialFormData =
     \<lparr>model = [str ''gpt-4o-mini''],
      eval_metrices =
        [str ''Accuracy'', str ''Hallucination'', str ''Authoritativeness'', str ''Usefulness''],
      user_query = [], ai_response = [],
      chunk_1 = [], chunk_2 = [], chunk_3 = [], chunk_4 = [], chunk_5 = [],
      uploaded_file = None\<rparr>"

definition initialFormState :: FormState where
  "initialFormState =
     \<lparr>formData = initialFormData, errors = [], uploadedFile = None, isUploading = False,
      csvRecords = [], selectedRecordIndex = 0\<rparr>"

text \<open>The values \<open>handleInputChange\<close> is called with: a text, or the metric array.\<close>

datatype field_value = Text js_string | Items "js_string list"

text \<open>
  \<open>{...prev, [field]: value}\<close>. The source only ever pairs a text field with a text and
  \<open>eval_metrices\<close> with an array; any other pairing leaves the record as it is here.
\<close>

definition assignField :: "string \<Rightarrow> field_value \<Rightarrow> EvaluationRequest \<Rightarrow> EvaluationRequest" where
  "assignField field v prev =
     (case v of
        Text s \<Rightarrow>
          if field = ''user_query'' then prev\<lparr>user_query := s\<rparr>
          else if field = ''ai_response'' then prev\<lparr>ai_response := s\<rparr>
          else if field = ''chunk_1'' then prev\<lparr>chunk_1 := s\<rparr>
          else if field = ''chunk_2'' then prev\<lparr>chunk_2 := s\<rparr>
          else if field = ''chunk_3'' then prev\<lparr>chunk_3 := s\<rparr>
          else if field = ''chunk_4'' then prev\<lparr>chunk_4 := s\<rparr>
          else if field = ''chunk_5'' then prev\<lparr>chunk_5 := s\<rparr>
          else prev
      | Items xs \<Rightarrow>
          if field = ''eval_metrices'' then prev\<lparr>eval_metrices := xs\<rparr>
          else if field = ''model'' then prev\<lparr>model := xs\<rparr>
          else prev)"

text \<open>\<open>errors[field]\<close> as a condition: a message that is present and not empty.\<close>

definition hasError :: "(string \<times> string) list \<Rightarrow> string \<Rightarrow> bool" where
  "hasError es field = (case map_of es field of None \<Rightarrow> False | Some msg \<Rightarrow> msg \<noteq> [])"

text \<open>
  A handler reads \<open>formData\<close> and \<open>errors\<close> from the render it was created in (the first
  argument, \<open>seen\<close>) and queues functional updates that apply to the latest state (the
  last argument).
\<close>

definition handleInputChange ::
  "FormState \<Rightarrow> string \<Rightarrow> field_value \<Rightarrow> FormState \<Rightarrow> FormState" where
  "handleInputChange seen field v st =
     (let st1 = st\<lparr>formData := assignField field v (formData st)\<rparr>
      in if hasError (errors seen) field
         then st1\<lparr>errors := AList.update field [] (errors st1)\<rparr>
         else st1)"

definition toggleMetric :: "js_string \<Rightarrow> js_string list \<Rightarrow> js_string list" where
  "toggleMetric m currentMetrics =
     (if m \<in> set currentMetrics then filter (\<lambda>x. x \<noteq> m) currentMetrics
      else currentMetrics @ [m])"

definition handleMetricToggle :: "js_string \<Rightarrow> FormState \<Rightarrow> FormState" where
  "handleMetricToggle m st =
     handleInputChange st ''eval_metrices''
       (Items (toggleMetric m (eval_metrices (formData st)))) st"

text \<open>A run of clicks on the metric cards, each handled in the render the last one left.\<close>

fun toggleAll :: "js_string list \<Rightarrow> FormState \<Rightarrow> FormState" where
  "toggleAll [] st = st"
| "toggleAll (m # ms) st = toggleAll ms (handleMetricToggle m st)"

subsection \<open>validateForm and handleSubmit\<close>

definition validateForm :: "FormState \<Rightarrow> FormState \<times> bool" where
  "validateForm st =
     (let e0 = [];
          e1 = (if trim (user_query (formData st)) = []
                then AList.update ''user_query'' ''User query is required'' e0 else e0);
          e2 = (if trim (ai_response (formData st)) = []
                then AList.update ''ai_response'' ''AI response is required'' e1 else e1);
          newErrors = (if length (eval_metrices (formData st)) = 0
                then AList.update ''eval_metrices'' ''At least one metric must be selected'' e2
                else e2)
      in (st\<lparr>errors := newErrors\<rparr>, length (map fst newErrors) = 0))"

text \<open>
  The second component is the argument \<open>onSubmit\<close> is called with, \<open>None\<close> when it is
  not called.
\<close>

definition handleSubmit :: "FormState \<Rightarrow> FormState \<times> EvaluationRequest option" where
  "handleSubmit st =
     (case validateForm st of
        (st', ok) \<Rightarrow>
          if ok then
            (st', Some ((formData st)\<lparr>uploaded_file :=
               (case uploadedFile st of
                  Some f \<Rightarrow> Some \<lparr>uf_name = file_name f, uf_content = ai_response (formData st),
                                   uf_type = file_type f, uf_size = file_size f\<rparr>
                | None \<Rightarrow> None)\<rparr>))
          else (st', None))"

section \<open>The CSV row parser (EvaluationForm.tsx, parseCSVRow)\<close>

text \<open>
  The \<open>while (i < row.length)\<close> loop, with its four locals as arguments. \<open>row[i + 1]\<close>
  past the end is \<open>undefined\<close>, which is not a quote.
\<close>

function parseCSVRow_loop ::
  "js_string \<Rightarrow> nat \<Rightarrow> bool \<Rightarrow> js_string \<Rightarrow> js_string list \<Rightarrow> js_string list" where
  "parseCSVRow_loop row i inQuotes current result =
     (if i < length row then
        (if row ! i = dquote then
           (if inQuotes \<and> i + 1 < length row \<and> row ! (i + 1) = dquote
            then parseCSVRow_loop row (i + 2) inQuotes (current @ [dquote]) result
            else parseCSVRow_loop row (i + 1) (\<not> inQuotes) current result)
         else if row ! i = comma \<and> \<not> inQuotes
           then parseCSVRow_loop row (i + 1) inQuotes [] (result @ [trim current])
         else parseCSVRow_loop row (i + 1) inQuotes (current @ [row ! i]) result)
      else result @ [trim current])"
  by pat_completeness auto
termination
  by (relation "measure (\<lambda>(row, i, inQuotes, current, result). length row - i)") auto

declare parseCSVRow_loop.simps [simp del]

definition parseCSVRow :: "js_string \<Rightarrow> js_string list" where
  "parseCSVRow row = parseCSVRow_loop row 0 False [] []"

text \<open>
  The same scan over what is left of the row; \<open>parseCSVRow_loop_scan\<close> below shows that
  the loop at index \<open>i\<close> is the scan of \<open>drop i row\<close>.
\<close>

fun scan :: "bool \<Rightarrow> js_string \<Rightarrow> js_string list \<Rightarrow> js_string \<Rightarrow> js_string list" where
  "scan inQuotes current result [] = result @ [trim current]"
| "scan inQuotes current result [c] =
     (if c = dquote then scan (\<not> inQuotes) current result []
      else if c = comma \<and> \<not> inQuotes then scan inQuotes [] (result @ [trim current]) []
      else scan inQuotes (current @ [c]) result [])"
| "scan inQuotes current result (c # d # cs) =
     (if c = dquote then
        (if inQuotes \<and> d = dquote then scan inQuotes (current @ [dquote]) result cs
         else scan (\<not> inQuotes) current result (d # cs))
      else if c = comma \<and> \<not> inQuotes
        then scan inQuotes [] (result @ [trim current]) (d # cs)
      else scan inQuotes (current @ [c]) result (d # cs))"

section \<open>File upload (EvaluationForm.tsx, handleFileUpload)\<close>

definition allowedTypes :: "js_string list" where
  "allowedTypes =
     [str ''text/plain'', str ''application/pdf'', str ''text/csv'', str ''application/json'']"

definition maxSize :: nat where
  "maxSize = 10 * 1024 * 1024"

text \<open>
  What the \<open>FileReader\<close> does with the file is the environment's: it calls \<open>onload\<close>
  with the text or \<open>onerror\<close>.
\<close>

datatype read_result = ReadFailed | ReadText js_string

text \<open>\<open>extractFileContent\<close>: the promise resolves with the text (\<open>Inr\<close>) or rejects.\<close>

definition extractFileContent :: "File \<Rightarrow> read_result \<Rightarrow> string + js_string" where
  "extractFileContent file reader =
     (if file_type file = str ''text/plain'' \<or> file_type file = str ''text/csv''
         \<or> file_type file = str ''application/json''
      then (case reader of ReadText content \<Rightarrow> Inr content
            | ReadFailed \<Rightarrow> Inl ''Failed to read file'')
      else if file_type file = str ''application/pdf''
      then Inl ''PDF parsing not yet implemented. Please use a text file.''
      else (case reader of ReadText content \<Rightarrow> Inr content
            | ReadFailed \<Rightarrow> Inl ''Failed to read file''))"

text \<open>
  \<open>fieldMapping\<close> maps the seven column names to themselves. The model looks a header up
  among these own keys only. The source's \<open>fieldMapping[header]\<close> also answers the names
  an object inherits from \<open>Object.prototype\<close> (\<open>constructor\<close>, \<open>toString\<close>,
  \<open>__proto__\<close>, ...) and then stores the cell under a key that is no form field; for a CSV
  file with such a header the model differs from the source, and nothing below is about
  such a file.
\<close>

definition fieldMapping :: "(js_string \<times> string) list" where
  "fieldMapping =
     [(str ''user_query'', ''user_query''), (str ''ai_response'', ''ai_response''),
      (str ''chunk_1'', ''chunk_1''), (str ''chunk_2'', ''chunk_2''),
      (str ''chunk_3'', ''chunk_3''), (str ''chunk_4'', ''chunk_4''),
      (str ''chunk_5'', ''chunk_5'')]"

text \<open>
  \<open>headers.forEach((header, index) => ...)\<close> from column \<open>index\<close> on: a mapped header
  whose cell \<open>row[index]\<close> exists and is not empty sets the record's field.
\<close>

fun fillRecord ::
  "js_string list \<Rightarrow> nat \<Rightarrow> js_string list \<Rightarrow> (string \<times> js_string) list
   \<Rightarrow> (string \<times> js_string) list" where
  "fillRecord [] index row record = record"
| "fillRecord (header # headers) index row record =
     fillRecord headers (index + 1) row
       (case map_of fieldMapping header of
          Some fieldName \<Rightarrow>
            if index < length row \<and> row ! index \<noteq> []
            then AList.update fieldName (row ! index) record else record
        | None \<Rightarrow> record)"

text \<open>
  \<open>Object.keys(record).forEach(...)\<close>: every field of the record with a non-empty value
  goes into the form; the flag says whether \<open>user_query\<close> was among them.
\<close>

fun populateFields ::
  "FormState \<Rightarrow> (string \<times> js_string) list \<Rightarrow> FormState \<times> bool \<Rightarrow> FormState \<times> bool" where
  "populateFields seen [] acc = acc"
| "populateFields seen ((fieldName, v) # rest) (st, userQueryFound) =
     populateFields seen rest
       (if v \<noteq> []
        then (handleInputChange seen fieldName (Text v) st,
              userQueryFound \<or> fieldName = ''user_query'')
        else (st, userQueryFound))"

definition populateFormWithRecord ::
  "FormState \<Rightarrow> (string \<times> js_string) list \<Rightarrow> FormState \<Rightarrow> FormState" where
  "populateFormWithRecord seen record st =
     (case populateFields seen record (st, False) of
        (st', userQueryFound) \<Rightarrow>
          if \<not> userQueryFound
          then handleInputChange seen ''user_query''
                 (Text (str ''Please evaluate the AI response'')) st'
          else st')"

text \<open>
  \<open>parseCSVContent\<close>. Fewer than two lines throws inside its own \<open>try\<close>, and the
  \<open>catch\<close> puts the whole content into the AI response field.
\<close>

definition parseCSVContent :: "FormState \<Rightarrow> js_string \<Rightarrow> FormState \<Rightarrow> FormState" where
  "parseCSVContent seen content st =
     (let lines = split newline (trim content) in
      if length lines < 2 then
        (let st1 = handleInputChange seen ''ai_response'' (Text content) st in
         if trim (user_query (formData seen)) = []
         then handleInputChange seen ''user_query''
                (Text (str ''Please evaluate the content from the uploaded file'')) st1
         else st1)
      else
        (let headers = parseCSVRow (hd lines);
             dataRows = map parseCSVRow (tl lines);
             records = map (\<lambda>row. fillRecord headers 0 row []) dataRows;
             st1 = st\<lparr>csvRecords := records, selectedRecordIndex := 0\<rparr>
         in populateFormWithRecord seen (hd records) st1))"

text \<open>
  \<open>handleFileUpload\<close> for the file the input element offers (\<open>None\<close> when the file list
  is empty). The handler runs from the render \<open>st\<close>; nothing else is taken to happen
  while the file is read.
\<close>

definition handleFileUpload :: "File option \<Rightarrow> read_result \<Rightarrow> FormState \<Rightarrow> FormState" where
  "handleFileUpload offered reader st =
     (case offered of
        None \<Rightarrow> st
      | Some file \<Rightarrow>
          if file_type file \<notin> set allowedTypes then
            st\<lparr>errors := AList.update ''file''
                  ''Please upload a valid file (TXT, PDF, CSV, or JSON)'' (errors st)\<rparr>
          else if file_size file > maxSize then
            st\<lparr>errors := AList.update ''file'' ''File size must be less than 10MB'' (errors st)\<rparr>
          else
            (let st1 = st\<lparr>isUploading := True, uploadedFile := Some file,
                           errors := AList.update ''file'' [] (errors st)\<rparr>;
                 st2 =
                   (case extractFileContent file reader of
                      Inr content \<Rightarrow>
                        if file_type file = str ''text/csv''
                           \<or> endsWith (file_name file) (str ''.csv'')
                        then parseCSVContent st content st1
                        else
                          (let st3 = handleInputChange st ''ai_response'' (Text content) st1 in
                           if trim (user_query (formData st)) = []
                           then handleInputChange st ''user_query''
                                  (Text (str ''Please evaluate the content from '' @ file_name file))
                                  st3
                           else st3)
                    | Inl err \<Rightarrow>
                        st1\<lparr>errors := AList.update ''file''
                               ''Error processing file. Please try again.'' (errors st1),
                             uploadedFile := None\<rparr>)
             in st2\<lparr>isUploading := False\<rparr>))"

section \<open>The API client (services/api.ts)\<close>

definition API_BASE_URL :: js_string where
  "API_BASE_URL = str ''http://localhost:9777''"

record AxiosConfig =
  baseURL :: js_string
  timeout :: nat

text \<open>\<open>axios.create({baseURL, timeout: 60000, ...})\<close>; the timeout is in milliseconds.\<close>

definition api :: AxiosConfig where
  "api = \<lparr>baseURL = API_BASE_URL, timeout = 60000\<rparr>"

text \<open>
  What a rejected call carries, as far as \<open>App\<close> reads it: \<open>err.response?.data?.detail\<close>,
  which is whatever JSON value the body holds under \<open>detail\<close> (a string for an HTTP
  error, a list of objects for a request the backend could not validate) and is absent
  when there was no response or no such key, and \<open>err.message\<close>, a string.
\<close>

record ApiFailure =
  detail :: "json option"
  message :: js_string

text \<open>
  The environment of a call: how long the backend takes to answer, in milliseconds, and
  what it answers then (an error status with its body, or the response data).
\<close>

record ServerAnswer =
  elapsed :: nat
  answer :: "ApiFailure + EvaluationResponse"

function decimal :: "nat \<Rightarrow> string" where
  "decimal n =
     (if n < 10 then [''0123456789'' ! n]
      else decimal (n div 10) @ [''0123456789'' ! (n mod 10)])"
  by pat_completeness auto
termination
  by (relation "measure (\<lambda>n. n)") auto

declare decimal.simps [simp del]

text \<open>
  \<open>api.post\<close>: axios aborts a request that takes longer than \<open>timeout\<close> milliseconds
  (0 means no timeout) and rejects with the message \<open>timeout of Nms exceeded\<close>; the
  two interceptors log and pass the outcome on unchanged.
\<close>

definition post :: "AxiosConfig \<Rightarrow> ServerAnswer \<Rightarrow> ApiFailure + EvaluationResponse" where
  "post config a =
     (if timeout config \<noteq> 0 \<and> elapsed a > timeout config
      then Inl \<lparr>detail = None,
                 message = str (''timeout of '' @ decimal (timeout config) @ ''ms exceeded'')\<rparr>
      else answer a)"

text \<open>\<open>evaluationAPI.evaluate\<close>: one POST through \<open>api\<close>, returning \<open>response.data\<close>.\<close>

definition evaluate ::
  "(EvaluationRequest \<Rightarrow> ServerAnswer) \<Rightarrow> EvaluationRequest \<Rightarrow> ApiFailure + EvaluationResponse" where
  "evaluate server request = post api (server request)"

section \<open>The application state (App.tsx)\<close>

text \<open>
  The three state hooks. \<open>error\<close> is declared \<open>string | null\<close>, but \<open>setError\<close> is
  handed the untyped \<open>detail\<close> of the failure, so at run time it holds any JSON value.
\<close>

record AppState =
  results :: "EvaluationResponse option"
  isLoading :: bool
  error :: "json option"

definition initialAppState :: AppState where
  "initialAppState = \<lparr>results = None, isLoading = False, error = None\<rparr>"

text \<open>\<open>err.response?.data?.detail || err.message || 'Evaluation failed'\<close>.\<close>

definition errorValue :: "ApiFailure \<Rightarrow> json" where
  "errorValue err =
     (case detail err of
        Some d \<Rightarrow> if truthy d then d
                  else if message err \<noteq> [] then JString (message err)
                  else JString (str ''Evaluation failed'')
      | None \<Rightarrow> if message err \<noteq> [] then JString (message err)
                else JString (str ''Evaluation failed''))"

text \<open>
  \<open>handleEvaluationSubmit\<close> is an async function. \<open>submitStart\<close> is what it does up to
  the \<open>await\<close>: the three updates. \<open>submitSettle\<close> is what it does when the awaited
  call settles: the rest of the \<open>try\<close> or the \<open>catch\<close>, then \<open>finally\<close>. It applies
  to the state of that moment, not to the state the call was started in.
\<close>

definition submitStart :: "AppState \<Rightarrow> AppState" where
  "submitStart st = st\<lparr>isLoading := True, error := None, results := None\<rparr>"

definition submitSettle :: "ApiFailure + EvaluationResponse \<Rightarrow> AppState \<Rightarrow> AppState" where
  "submitSettle outcome st =
     (case outcome of
        Inr response \<Rightarrow> st\<lparr>results := Some response\<rparr>
      | Inl err \<Rightarrow> st\<lparr>error := Some (errorValue err)\<rparr>)\<lparr>isLoading := False\<rparr>"

text \<open>
  One call of \<open>handleEvaluationSubmit\<close> on its own, with nothing else happening between
  its two halves. This is the handler in isolation only; \<open>appRun\<close> below is the
  component, where the halves of several calls interleave.
\<close>

definition handleEvaluationSubmit ::
  "(EvaluationRequest \<Rightarrow> ServerAnswer) \<Rightarrow> EvaluationRequest \<Rightarrow> AppState \<Rightarrow> AppState" where
  "handleEvaluationSubmit server request st =
     submitSettle (evaluate server request) (submitStart st)"

definition handleNewEvaluation :: "AppState \<Rightarrow> AppState" where
  "handleNewEvaluation st = st\<lparr>results := None, error := None\<rparr>"

text \<open>
  What happens to the component, one step at a time: a submission starts a call, a
  pending call settles with its outcome, or New Evaluation is clicked. The \<open>await\<close>
  gives control back, so other steps run between the start of a call and its settling.
  The form is a child of \<open>AnimatePresence\<close> with an exit transition of half a second:
  while it leaves it stays mounted with the props of its last render (\<open>isLoading\<close> false,
  the button enabled), so a second submission can start while the first call is pending,
  and nothing cancels the older call or ignores its outcome.
\<close>

datatype AppStep =
  SubmitClicked
| CallSettled "ApiFailure + EvaluationResponse"
| NewEvaluationClicked

fun appStep :: "AppStep \<Rightarrow> AppState \<Rightarrow> AppState" where
  "appStep SubmitClicked st = submitStart st"
| "appStep (CallSettled outcome) st = submitSettle outcome st"
| "appStep NewEvaluationClicked st = handleNewEvaluation st"

fun appRun :: "AppStep list \<Rightarrow> AppState \<Rightarrow> AppState" where
  "appRun [] st = st"
| "appRun (e # es) st = appRun es (appStep e st)"

text \<open>
  What \<open>App\<close> renders from its state, once transitions are over: the form block, with the
  error banner inside it, when \<open>!results && !isLoading\<close>; the spinner when
  \<open>isLoading\<close>; the results block when \<open>results\<close>.
\<close>

record AppView =
  formShown :: bool
  errorShown :: "json option"
  spinnerShown :: bool
  resultsShown :: "EvaluationResponse option"

definition App :: "AppState \<Rightarrow> AppView" where
  "App st =
     \<lparr>formShown = (results st = None \<and> \<not> isLoading st),
      errorShown = (if results st = None \<and> \<not> isLoading st then error st else None),
      spinnerShown = isLoading st,
      resultsShown = results st\<rparr>"

section \<open>The results view (ResultsDisplay.tsx)\<close>

definition getBadgeClass :: "Badge \<Rightarrow> string" where
  "getBadgeClass b =
     (case b of Platinum \<Rightarrow> ''metric-platinum'' | Gold \<Rightarrow> ''metric-gold''
      | Silver \<Rightarrow> ''metric-silver'' | Bronze \<Rightarrow> ''metric-bronze'')"

text \<open>The four candidate entries, filtered by \<open>metric => metric.data\<close>.\<close>

definition metrics :: "EvaluationResponse \<Rightarrow> (string \<times> MetricEvaluation option) list" where
  "metrics r =
     filter (\<lambda>(key, data). data \<noteq> None)
       [(''accuracy'', accuracy r), (''hallucination'', hallucination r),
        (''authoritativeness'', authoritativeness r), (''usefulness'', usefulness r)]"

text \<open>
  One card of the Individual Metrics grid: its key, the metric's name, the badge and its
  class, the score out of 3, the rating and the reasoning, each as received.
\<close>

record MetricCard =
  card_key :: string
  card_metric :: MetricIdentifier
  card_badge :: Badge
  card_badgeClass :: string
  card_score :: nat
  card_rating :: Rating
  card_reasoning :: js_string

definition metricCard :: "string \<Rightarrow> MetricEvaluation \<Rightarrow> MetricCard" where
  "metricCard key d =
     \<lparr>card_key = key, card_metric = metric d, card_badge = badge d,
      card_badgeClass = getBadgeClass (badge d), card_score = score_value (score d),
      card_rating = rating d, card_reasoning = reasoning d\<rparr>"

text \<open>
  What the component renders, without the number formatting of \<open>toFixed\<close>: the overall
  block, one card per entry of \<open>metrics\<close>, and the details with \<open>metrics.length\<close>.
\<close>

record ResultsView =
  shown_overall_score :: rat
  shown_overall_badge :: Badge
  shown_overall_rating :: Rating
  shown_summary :: js_string
  cards :: "MetricCard list"
  shown_evaluation_id :: js_string
  metricsEvaluated :: nat

definition ResultsDisplay :: "EvaluationResponse \<Rightarrow> ResultsView" where
  "ResultsDisplay r =
     \<lparr>shown_overall_score = overall_score (overall r),
      shown_overall_badge = overall_badge (overall r),
      shown_overall_rating = overall_rating (overall r),
      shown_summary = summary (overall r),
      cards = [metricCard key d. (key, Some d) \<leftarrow> metrics r],
      shown_evaluation_id = evaluation_id r,
      metricsEvaluated = length (metrics r)\<rparr>"

section \<open>The backend orchestrator, from its specification\<close>

text \<open>
  The backend (agen-sme-eval-be: \<open>agents.py\<close>, \<open>orchestrator_factory.py\<close>, \<open>api.py\<close>,
  \<open>config.py\<close>) is not among the source files; only its README and examples are. The
  definitions of this section follow the specification's words.
\<close>

subsection \<open>Metric Scorer\<close>

text \<open>
  Modelled from the spec: the fixed mapping table of the Metric Scorer (backend code that
  is missing), \<open>3 \<leftrightarrow> Great \<leftrightarrow> Platinum, 2 \<leftrightarrow> Good \<leftrightarrow> Gold, 1 \<leftrightarrow> Fair \<leftrightarrow> Silver,
  0 \<leftrightarrow> Poor \<leftrightarrow> Bronze\<close>.
\<close>

fun rating_of :: "Score \<Rightarrow> Rating" where
  "rating_of S3 = Great"
| "rating_of S2 = Good"
| "rating_of S1 = Fair"
| "rating_of S0 = Poor"

text \<open>
  Modelled from the spec: the badge column of the same table of the Metric Scorer (backend
  code that is missing), derived 1:1 from the score.
\<close>

fun badge_of :: "Score \<Rightarrow> Badge" where
  "badge_of S3 = Platinum"
| "badge_of S2 = Gold"
| "badge_of S1 = Silver"
| "badge_of S0 = Bronze"

text \<open>
  Modelled from the spec: the four canonical tuples of the MetricResult invariant (the
  scorer that is to keep it is backend code that is missing).
\<close>

definition canonicalTuples :: "(Score \<times> Rating \<times> Badge) list" where
  "canonicalTuples =
     [(S3, Great, Platinum), (S2, Good, Gold), (S1, Fair, Silver), (S0, Poor, Bronze)]"

text \<open>
  Modelled from the spec: the MetricResult invariant, that score, rating and badge are
  mutually consistent per the mapping, as a predicate on the response type's values.
\<close>

definition canonical :: "MetricEvaluation \<Rightarrow> bool" where
  "canonical m \<longleftrightarrow> (score m, rating m, badge m) \<in> set canonicalTuples"

text \<open>
  Modelled from the spec: the RawVerdict an evaluator returns (backend code that is
  missing), free text reasoning plus an ordinal signal that may be missing or out of
  range.
\<close>

record RawVerdict =
  verdict_reasoning :: js_string
  ordinal_signal :: "int option"

text \<open>
  Modelled from the spec: the per-metric failures of the error taxonomy (backend code that
  is missing): an evaluator error, a deadline exhaustion, a malformed verdict.
\<close>

datatype MetricFailure = EvaluatorError | Timeout | ScoringError

text \<open>
  Modelled from the spec: \<open>score(raw: RawVerdict) -> MetricResult\<close> of the Metric Scorer
  (backend code that is missing): the signal is normalised into \<open>{0,1,2,3}\<close>, and a
  signal that cannot be normalised fails with \<open>ScoringError\<close>.
\<close>

definition normalise :: "int option \<Rightarrow> Score option" where
  "normalise signal =
     (case signal of
        None \<Rightarrow> None
      | Some n \<Rightarrow> if n = 3 then Some S3 else if n = 2 then Some S2
                  else if n = 1 then Some S1 else if n = 0 then Some S0 else None)"

text \<open>
  Modelled from the spec: the Metric Scorer itself (backend code that is missing). The
  result takes its rating and badge from the table and its reasoning from the verdict.
\<close>

definition score_verdict :: "MetricIdentifier \<Rightarrow> RawVerdict \<Rightarrow> MetricFailure + MetricEvaluation" where
  "score_verdict m raw =
     (case normalise (ordinal_signal raw) of
        None \<Rightarrow> Inl ScoringError
      | Some s \<Rightarrow> Inr \<lparr>metric = m, rating = rating_of s, score = s, badge = badge_of s,
                       reasoning = verdict_reasoning raw\<rparr>)"

subsection \<open>Aggregator\<close>

text \<open>
  Modelled from the spec: the request-level errors of the error taxonomy (backend code
  that is missing).
\<close>

datatype RequestError = ValidationError | Overloaded | NoMetricsCompleted | InternalFault

text \<open>
  Modelled from the spec: the bucket assignment of the Aggregator (backend code that is
  missing): \<open>score \<ge> 2.5\<close> Great/Platinum, \<open>1.5 \<le> score < 2.5\<close> Good/Gold,
  \<open>0.5 \<le> score < 1.5\<close> Fair/Silver, \<open>score < 0.5\<close> Poor/Bronze.
\<close>

definition bucket :: "rat \<Rightarrow> Score" where
  "bucket mean =
     (if mean \<ge> 5 / 2 then S3 else if mean \<ge> 3 / 2 then S2
      else if mean \<ge> 1 / 2 then S1 else S0)"

text \<open>
  Modelled from the spec: \<open>aggregate(results: sequence<MetricResult-or-failure>)\<close> of the
  Aggregator (backend code that is missing). One pass over the results adds up the
  scores of the successes and counts them; failures add to neither. No success is
  \<open>NoMetricsCompleted\<close>. The summary template is not given by the specification and is a
  parameter: it gets the contributing metrics, the number of results and the rating.
\<close>

fun tally :: "(MetricFailure + MetricEvaluation) list \<Rightarrow> nat \<times> nat \<Rightarrow> nat \<times> nat" where
  "tally [] acc = acc"
| "tally (Inl failure # rest) acc = tally rest acc"
| "tally (Inr m # rest) (points, n) = tally rest (points + score_value (score m), n + 1)"

text \<open>
  Modelled from the spec: \<open>S\<close>, the list of successfully scored MetricResults among the
  results handed to the Aggregator (backend code that is missing).
\<close>

definition completed :: "(MetricFailure + MetricEvaluation) list \<Rightarrow> MetricEvaluation list" where
  "completed rs = [e. Inr e \<leftarrow> rs]"

text \<open>
  Modelled from the spec: the metrics that contributed, which the summary template of the
  Aggregator names (backend code that is missing).
\<close>

fun contributors :: "(MetricFailure + MetricEvaluation) list \<Rightarrow> MetricIdentifier list" where
  "contributors [] = []"
| "contributors (Inl failure # rest) = contributors rest"
| "contributors (Inr m # rest) = metric m # contributors rest"

text \<open>
  Modelled from the spec: the Aggregator itself (backend code that is missing): the mean
  of the tally as an exact quotient, and the bucket's rating and badge.
\<close>

definition aggregate ::
  "(MetricIdentifier list \<Rightarrow> nat \<Rightarrow> Rating \<Rightarrow> js_string)
   \<Rightarrow> (MetricFailure + MetricEvaluation) list \<Rightarrow> RequestError + OverallEvaluation" where
  "aggregate template rs =
     (case tally rs (0, 0) of
        (points, n) \<Rightarrow>
          if n = 0 then Inl NoMetricsCompleted
          else
            (let mean = of_nat points / of_nat n
             in Inr \<lparr>overall_rating = rating_of (bucket mean), overall_score = mean,
                      overall_badge = badge_of (bucket mean),
                      summary = template (contributors rs) (length rs)
                                  (rating_of (bucket mean))\<rparr>))"

subsection \<open>Concurrency Gate\<close>

text \<open>
  Modelled from the spec: the Concurrency Gate (backend code that is missing), as a
  transition system over request identifiers. \<open>admitted\<close> are the requests holding a
  permit, \<open>waiting\<close> the queue, oldest first. A request arrives, an admitted request
  releases its permit, or the outer timeout of a request expires; what the gate tells
  the requests is the list of notices of the step.
\<close>

record Gate =
  gate_ceiling :: nat
  admitted :: "nat list"
  waiting :: "nat list"

text \<open>
  Modelled from the spec: what happens at the Concurrency Gate (backend code that is
  missing), and what the gate answers.
\<close>

datatype GateEvent = Arrive nat | Release nat | Expire nat

datatype GateNotice = Permit nat | Wait nat | Fail nat RequestError

text \<open>
  Modelled from the spec: the default concurrency ceiling of the backend configuration
  (\<open>MAX_CONCURRENT_EVALUATIONS=5\<close> in the README; \<open>config.py\<close> is missing).
\<close>

definition default_ceiling :: nat where
  "default_ceiling = 5"

text \<open>
  Modelled from the spec: the Concurrency Gate at process start (backend code that is
  missing), with its configured ceiling and nobody admitted or waiting.
\<close>

definition newGate :: "nat \<Rightarrow> Gate" where
  "newGate n = \<lparr>gate_ceiling = n, admitted = [], waiting = []\<rparr>"

text \<open>
  Modelled from the spec: \<open>acquire\<close> and \<open>release\<close> of the Concurrency Gate (backend code
  that is missing). An arrival takes a free permit or joins the back of the queue; a
  release hands the permit to the front of the queue; an expiry takes a request that is
  still queued out of the queue and fails it with \<open>Overloaded\<close>.
\<close>

fun gateStep :: "GateEvent \<Rightarrow> Gate \<Rightarrow> Gate \<times> GateNotice list" where
  "gateStep (Arrive r) g =
     (if length (admitted g) < gate_ceiling g
      then (g\<lparr>admitted := admitted g @ [r]\<rparr>, [Permit r])
      else (g\<lparr>waiting := waiting g @ [r]\<rparr>, [Wait r]))"
| "gateStep (Release r) g =
     (if r \<in> set (admitted g) then
        (case waiting g of
           [] \<Rightarrow> (g\<lparr>admitted := remove1 r (admitted g)\<rparr>, [])
         | w # ws \<Rightarrow> (g\<lparr>admitted := remove1 r (admitted g) @ [w], waiting := ws\<rparr>, [Permit w]))
      else (g, []))"
| "gateStep (Expire r) g =
     (if r \<in> set (waiting g)
      then (g\<lparr>waiting := remove1 r (waiting g)\<rparr>, [Fail r Overloaded])
      else (g, []))"

text \<open>
  Modelled from the spec: a run of the Concurrency Gate (backend code that is missing),
  one event after the other; the gate's counter is only ever changed one step at a time.
\<close>

fun gateRun :: "GateEvent list \<Rightarrow> Gate \<Rightarrow> Gate" where
  "gateRun [] g = g"
| "gateRun (e # es) g = gateRun es (fst (gateStep e g))"

text \<open>
  The invariant of the gate used in the proofs: no more permits than the ceiling, and
  nobody waits while a permit is free.
\<close>

definition gate_ok :: "Gate \<Rightarrow> bool" where
  "gate_ok g \<longleftrightarrow>
     length (admitted g) \<le> gate_ceiling g \<and>
     (waiting g = [] \<or> length (admitted g) = gate_ceiling g)"

subsection \<open>Orchestrator\<close>

text \<open>
  Modelled from the spec: the EvaluationRequest the orchestrator consumes and the
  response it builds (backend code that is missing). The request is validated, the
  requested metrics are resolved with duplicates collapsed, each evaluator's verdict
  passes through the scorer, the aggregator produces the overall result, and each
  per-metric field of the response is present only if that metric was requested and
  completed. The evaluators are a parameter.
\<close>

record OrchestratorRequest =
  query :: js_string
  response_text :: js_string
  context_chunks :: "js_string list"
  requested_metrics :: "MetricIdentifier list"
  model_hint :: "js_string list"




text \<open>
  Modelled from the spec: the default request timeout of the backend configuration
  (\<open>EVALUATION_TIMEOUT=300\<close> in the README; \<open>config.py\<close> is missing), in seconds.
\<close>

definition default_request_timeout :: nat where
  "default_request_timeout = 300"

section \<open>A writer of quoted CSV rows\<close>

text \<open>
  The encoding the round-trip property speaks of: every field wrapped in double quotes,
  embedded double quotes doubled, fields joined by commas. It is not part of the
  program; it is the writer the parser is expected to invert.
\<close>

definition escapeField :: "js_string \<Rightarrow> js_string" where
  "escapeField f = concat (map (\<lambda>c. if c = dquote then [dquote, dquote] else [c]) f)"

definition quoteField :: "js_string \<Rightarrow> js_string" where
  "quoteField f = dquote # escapeField f @ [dquote]"

fun quotedRowEncoding :: "js_string list \<Rightarrow> js_string" where
  "quotedRowEncoding [] = []"
| "quotedRowEncoding [f] = quoteField f"
| "quotedRowEncoding (f # g # fs) = quoteField f @ comma # quotedRowEncoding (g # fs)"

section \<open>Theorems\<close>

subsection \<open>CSV rows\<close>

lemma dquote_neq_comma: "dquote \<noteq> comma"
  by (simp add: dquote_def comma_def)

lemma drop_two:
  "Suc i < length row \<Longrightarrow> drop i row = row ! i # row ! Suc i # drop (Suc (Suc i)) row"
  by (metis Cons_nth_drop_Suc Suc_lessD)

lemma drop_one_last: "length row = Suc i \<Longrightarrow> drop i row = [row ! i]"
  by (metis Cons_nth_drop_Suc drop_all lessI order_refl)

lemma parseCSVRow_loop_scan:
  "i \<le> length row \<Longrightarrow>
   parseCSVRow_loop row i inQuotes current result = scan inQuotes current result (drop i row)"
proof (induction row i inQuotes current result rule: parseCSVRow_loop.induct)
  case (1 row i inQuotes current result)
  show ?case
  proof (cases "i < length row")
    case False
    with "1.prems" show ?thesis by (subst parseCSVRow_loop.simps) simp
  next
    case inside: True
    show ?thesis
    proof (cases "Suc i < length row")
      case True
      note d = drop_two [OF True]
      have d1: "drop (Suc i) row = row ! Suc i # drop (Suc (Suc i)) row"
        using True by (metis Cons_nth_drop_Suc)
      from inside True "1.IH" show ?thesis
        by (subst parseCSVRow_loop.simps, subst d)
           (auto simp add: d1 dquote_neq_comma dquote_neq_comma [symmetric])
    next
      case False
      with inside have l: "length row = Suc i" by simp
      note d = drop_one_last [OF l]
      from inside False "1.IH" l show ?thesis
        by (subst parseCSVRow_loop.simps, subst d)
           (auto simp add: dquote_neq_comma dquote_neq_comma [symmetric])
    qed
  qed
qed

lemma parseCSVRow_scan: "parseCSVRow row = scan False [] [] row"
  by (simp add: parseCSVRow_def parseCSVRow_loop_scan)

lemma scan_nonempty: "scan inQuotes current result cs \<noteq> []"
  by (induction inQuotes current result cs rule: scan.induct) auto

lemma scan_quote_pair:
  "scan True current result (dquote # dquote # cs) = scan True (current @ [dquote]) result cs"
  by simp

lemma scan_inside:
  "c \<noteq> dquote \<Longrightarrow> scan True current result (c # cs) = scan True (current @ [c]) result cs"
  by (cases cs) auto

lemma scan_escapeField:
  "scan True current result (escapeField f @ rest) = scan True (current @ f) result rest"
proof (induction f arbitrary: current)
  case Nil
  show ?case by (simp add: escapeField_def)
next
  case (Cons c f)
  show ?case
  proof (cases "c = dquote")
    case True
    then have "escapeField (c # f) = dquote # dquote # escapeField f"
      by (simp add: escapeField_def)
    with True show ?thesis using Cons.IH [of "current @ [dquote]"] by simp
  next
    case False
    then have "escapeField (c # f) = c # escapeField f"
      by (simp add: escapeField_def)
    with False show ?thesis using Cons.IH [of "current @ [c]"] by (simp add: scan_inside)
  qed
qed

lemma scan_open: "scan False current result (dquote # cs) = scan True current result cs"
  by (cases cs) auto

lemma scan_close_end: "scan True current result [dquote] = result @ [trim current]"
  by simp

lemma scan_close_comma:
  "scan True current result (dquote # comma # cs) = scan False [] (result @ [trim current]) cs"
  using dquote_neq_comma by (cases cs) auto

lemma scan_quoteField_last:
  "scan False [] result (quoteField f) = result @ [trim f]"
  using scan_escapeField [of "[]" result f "[dquote]"]
  by (simp add: quoteField_def scan_open scan_close_end del: scan.simps)

lemma scan_quoteField_more:
  "scan False [] result (quoteField f @ comma # rest) = scan False [] (result @ [trim f]) rest"
  using scan_escapeField [of "[]" result f "dquote # comma # rest"]
  by (simp add: quoteField_def scan_open scan_close_comma del: scan.simps)

lemma scan_quotedRowEncoding:
  "fs \<noteq> [] \<Longrightarrow> scan False [] result (quotedRowEncoding fs) = result @ map trim fs"
proof (induction fs arbitrary: result rule: quotedRowEncoding.induct)
  case 1
  then show ?case by simp
next
  case (2 f)
  show ?case by (simp add: scan_quoteField_last)
next
  case (3 f g fs)
  then show ?case by (simp add: scan_quoteField_more del: scan.simps)
qed

text \<open>
  Claim C9, as the code has it. For every input string \<open>parseCSVRow\<close> returns (the loop is
  a total function, its termination proved with the measure \<open>row.length - i\<close>) and
  returns at least one field. For every non-empty list of fields, written as a row in which
  each field is wrapped in double quotes with embedded double quotes doubled and the
  fields are joined by commas, \<open>parseCSVRow\<close> returns the fields, each trimmed.
\<close>

theorem parseCSVRow_total_and_inverts_quoted_rows:
  "parseCSVRow row \<noteq> [] \<and>
   (fs \<noteq> [] \<longrightarrow> parseCSVRow (quotedRowEncoding fs) = map trim fs)"
proof (intro conjI impI)
  show "parseCSVRow row \<noteq> []"
    unfolding parseCSVRow_scan by (rule scan_nonempty)
next
  assume "fs \<noteq> []"
  then have "scan False [] [] (quotedRowEncoding fs) = [] @ map trim fs"
    by (rule scan_quotedRowEncoding)
  then show "parseCSVRow (quotedRowEncoding fs) = map trim fs"
    by (simp add: parseCSVRow_scan)
qed

theorem parseCSVRow_witness:
  "parseCSVRow (str ''a,b'') \<noteq> [] \<and>
   parseCSVRow (quotedRowEncoding [str '' say \"hi\", ok'', str ''x,y '']) =
     [str ''say \"hi\", ok'', str ''x,y'']"
  using parseCSVRow_total_and_inverts_quoted_rows
    [of "str ''a,b''" "[str '' say \"hi\", ok'', str ''x,y '']"]
  by (simp add: trim_def isWhiteSpace_def str_def)

text \<open>
  The claim as stated, for every list of fields, fails at the empty list: its row is the
  empty string, for which the parser returns one empty field.
\<close>

theorem parseCSVRow_empty_row_counterexample:
  "parseCSVRow (quotedRowEncoding []) = [[]] \<and>
   parseCSVRow (quotedRowEncoding []) \<noteq> map trim []"
  by (simp add: parseCSVRow_scan trim_def)

subsection \<open>Metric selection\<close>

lemma eval_metrices_handleInputChange:
  "eval_metrices (formData (handleInputChange seen ''eval_metrices'' (Items xs) st)) = xs"
  by (simp add: handleInputChange_def assignField_def Let_def)

lemma eval_metrices_handleMetricToggle:
  "eval_metrices (formData (handleMetricToggle m st)) =
     toggleMetric m (eval_metrices (formData st))"
  by (simp add: handleMetricToggle_def eval_metrices_handleInputChange)

lemma distinct_toggleMetric: "distinct xs \<Longrightarrow> distinct (toggleMetric m xs)"
  by (simp add: toggleMetric_def)

lemma distinct_toggleAll:
  "distinct (eval_metrices (formData st)) \<Longrightarrow>
   distinct (eval_metrices (formData (toggleAll ms st)))"
proof (induction ms arbitrary: st)
  case Nil
  then show ?case by simp
next
  case (Cons m ms)
  from Cons.prems have "distinct (eval_metrices (formData (handleMetricToggle m st)))"
    by (simp add: eval_metrices_handleMetricToggle distinct_toggleMetric)
  then show ?case using Cons.IH by simp
qed

lemma distinct_initial_selection: "distinct (eval_metrices (formData initialFormState))"
  by (simp add: initialFormState_def initialFormData_def str_def)

text \<open>
  Claim C8. The selected metrics behave as a set: after any run of toggles from the
  initial selection \<open>eval_metrices\<close> holds no identifier twice; toggling a metric that
  is present removes it, and toggling one that is absent appends it exactly once.
\<close>

theorem metric_selection_has_no_duplicates:
  "distinct (eval_metrices (formData (toggleAll ms initialFormState))) \<and>
   (m \<in> set (eval_metrices (formData st)) \<longrightarrow>
      eval_metrices (formData (handleMetricToggle m st)) =
        filter (\<lambda>x. x \<noteq> m) (eval_metrices (formData st)) \<and>
      m \<notin> set (eval_metrices (formData (handleMetricToggle m st)))) \<and>
   (m \<notin> set (eval_metrices (formData st)) \<longrightarrow>
      eval_metrices (formData (handleMetricToggle m st)) = eval_metrices (formData st) @ [m] \<and>
      count_list (eval_metrices (formData (handleMetricToggle m st))) m = 1)"
proof (intro conjI impI)
  show "distinct (eval_metrices (formData (toggleAll ms initialFormState)))"
    by (rule distinct_toggleAll [OF distinct_initial_selection])
next
  assume "m \<in> set (eval_metrices (formData st))"
  then show "eval_metrices (formData (handleMetricToggle m st)) =
      filter (\<lambda>x. x \<noteq> m) (eval_metrices (formData st))"
    and "m \<notin> set (eval_metrices (formData (handleMetricToggle m st)))"
    by (simp_all add: eval_metrices_handleMetricToggle toggleMetric_def)
next
  assume "m \<notin> set (eval_metrices (formData st))"
  then show "eval_metrices (formData (handleMetricToggle m st)) = eval_metrices (formData st) @ [m]"
    and "count_list (eval_metrices (formData (handleMetricToggle m st))) m = 1"
    by (simp_all add: eval_metrices_handleMetricToggle toggleMetric_def count_list_0_iff)
qed

theorem metric_selection_witness:
  "distinct (eval_metrices (formData
      (toggleAll [str ''Accuracy'', str ''Usefulness'', str ''Accuracy'', str ''Accuracy'']
         initialFormState))) \<and>
   eval_metrices (formData (handleMetricToggle (str ''Accuracy'') initialFormState)) =
     [str ''Hallucination'', str ''Authoritativeness'', str ''Usefulness''] \<and>
   eval_metrices (formData (handleMetricToggle (str ''Accuracy'')
      (handleMetricToggle (str ''Accuracy'') initialFormState))) =
     [str ''Hallucination'', str ''Authoritativeness'', str ''Usefulness'', str ''Accuracy'']"
  using metric_selection_has_no_duplicates
    [of "[str ''Accuracy'', str ''Usefulness'', str ''Accuracy'', str ''Accuracy'']"
        "str ''Accuracy''" initialFormState]
    metric_selection_has_no_duplicates
    [of "[]" "str ''Accuracy''" "handleMetricToggle (str ''Accuracy'') initialFormState"]
  by (simp add: initialFormState_def initialFormData_def str_def)

subsection \<open>Form validation and submission\<close>

lemma validateForm_ok:
  "snd (validateForm st) \<longleftrightarrow>
     trim (user_query (formData st)) \<noteq> [] \<and> trim (ai_response (formData st)) \<noteq> [] \<and>
     eval_metrices (formData st) \<noteq> []"
  by (simp add: validateForm_def Let_def)

lemma validateForm_errors:
  "map_of (errors (fst (validateForm st))) ''user_query'' =
     (if trim (user_query (formData st)) = [] then Some ''User query is required'' else None)"
  "map_of (errors (fst (validateForm st))) ''ai_response'' =
     (if trim (ai_response (formData st)) = [] then Some ''AI response is required'' else None)"
  "map_of (errors (fst (validateForm st))) ''eval_metrices'' =
     (if eval_metrices (formData st) = [] then Some ''At least one metric must be selected''
      else None)"
  by (simp_all add: validateForm_def Let_def update_conv')

lemma handleSubmit_fst: "fst (handleSubmit st) = fst (validateForm st)"
  by (simp add: handleSubmit_def split: prod.splits)

lemma handleSubmit_snd:
  "snd (handleSubmit st) =
     (if snd (validateForm st)
      then Some ((formData st)\<lparr>uploaded_file :=
             (case uploadedFile st of
                Some f \<Rightarrow> Some \<lparr>uf_name = file_name f, uf_content = ai_response (formData st),
                                 uf_type = file_type f, uf_size = file_size f\<rparr>
              | None \<Rightarrow> None)\<rparr>)
      else None)"
  by (simp add: handleSubmit_def split: prod.splits)

text \<open>
  Claim C4. \<open>handleSubmit\<close> calls \<open>onSubmit\<close> if and only if the user query and the AI
  response are non-empty after trimming and at least one metric is selected; a form that
  violates one of these gets the field's error, is not sent, and a form that is sent is
  sent with its fields as they stand.
\<close>

theorem submission_iff_validation_passes:
  "(snd (handleSubmit st) \<noteq> None \<longleftrightarrow>
      trim (user_query (formData st)) \<noteq> [] \<and> trim (ai_response (formData st)) \<noteq> [] \<and>
      eval_metrices (formData st) \<noteq> []) \<and>
   (snd (handleSubmit st) = None \<longrightarrow> errors (fst (handleSubmit st)) \<noteq> []) \<and>
   map_of (errors (fst (handleSubmit st))) ''user_query'' =
     (if trim (user_query (formData st)) = [] then Some ''User query is required'' else None) \<and>
   map_of (errors (fst (handleSubmit st))) ''ai_response'' =
     (if trim (ai_response (formData st)) = [] then Some ''AI response is required'' else None) \<and>
   map_of (errors (fst (handleSubmit st))) ''eval_metrices'' =
     (if eval_metrices (formData st) = [] then Some ''At least one metric must be selected''
      else None) \<and>
   (\<forall>request. snd (handleSubmit st) = Some request \<longrightarrow>
      user_query request = user_query (formData st) \<and>
      ai_response request = ai_response (formData st) \<and>
      eval_metrices request = eval_metrices (formData st))"
proof (intro conjI)
  show "snd (handleSubmit st) \<noteq> None \<longleftrightarrow>
      trim (user_query (formData st)) \<noteq> [] \<and> trim (ai_response (formData st)) \<noteq> [] \<and>
      eval_metrices (formData st) \<noteq> []"
    by (simp add: handleSubmit_snd validateForm_ok)
  show "snd (handleSubmit st) = None \<longrightarrow> errors (fst (handleSubmit st)) \<noteq> []"
    by (auto simp add: handleSubmit_snd handleSubmit_fst validateForm_def Let_def
          split: if_splits)
  show "\<forall>request. snd (handleSubmit st) = Some request \<longrightarrow>
      user_query request = user_query (formData st) \<and>
      ai_response request = ai_response (formData st) \<and>
      eval_metrices request = eval_metrices (formData st)"
    by (auto simp add: handleSubmit_snd split: if_splits)
qed (simp_all add: handleSubmit_fst validateForm_errors)

theorem submission_witness:
  "snd (handleSubmit (initialFormState\<lparr>formData :=
          initialFormData\<lparr>user_query := str ''What is 2+2?'', ai_response := str ''4''\<rparr>\<rparr>)) \<noteq> None \<and>
   snd (handleSubmit (initialFormState\<lparr>formData :=
          initialFormData\<lparr>user_query := str ''  '', ai_response := str ''4''\<rparr>\<rparr>)) = None \<and>
   map_of (errors (fst (handleSubmit (initialFormState\<lparr>formData :=
          initialFormData\<lparr>user_query := str ''  '', ai_response := str ''4''\<rparr>\<rparr>)))) ''user_query''
     = Some ''User query is required''"
  using submission_iff_validation_passes
      [of "initialFormState\<lparr>formData :=
          initialFormData\<lparr>user_query := str ''What is 2+2?'', ai_response := str ''4''\<rparr>\<rparr>"]
    submission_iff_validation_passes
      [of "initialFormState\<lparr>formData :=
          initialFormData\<lparr>user_query := str ''  '', ai_response := str ''4''\<rparr>\<rparr>"]
  by (simp add: initialFormState_def initialFormData_def str_def trim_def isWhiteSpace_def)

subsection \<open>File upload\<close>

lemma allowedTypes_set:
  "set allowedTypes =
     {str ''text/plain'', str ''application/pdf'', str ''text/csv'', str ''application/json''}"
  by (simp add: allowedTypes_def)

lemma maxSize_bytes: "maxSize = 10485760"
  by (simp add: maxSize_def)

lemma handleFileUpload_wrong_type:
  "file_type file \<notin> set allowedTypes \<Longrightarrow>
   handleFileUpload (Some file) reader st =
     st\<lparr>errors := AList.update ''file''
           ''Please upload a valid file (TXT, PDF, CSV, or JSON)'' (errors st)\<rparr>"
  by (simp add: handleFileUpload_def)

lemma handleFileUpload_too_large:
  "file_type file \<in> set allowedTypes \<Longrightarrow> file_size file > maxSize \<Longrightarrow>
   handleFileUpload (Some file) reader st =
     st\<lparr>errors := AList.update ''file'' ''File size must be less than 10MB'' (errors st)\<rparr>"
  by (simp add: handleFileUpload_def)

lemma hasError_update: "msg \<noteq> [] \<Longrightarrow> hasError (AList.update k msg es) k"
  by (simp add: hasError_def update_conv')

lemma uploadedFile_handleInputChange [simp]:
  "uploadedFile (handleInputChange seen field v st) = uploadedFile st"
  by (simp add: handleInputChange_def Let_def)

lemma uploadedFile_populateFields:
  "uploadedFile (fst (populateFields seen cells acc)) = uploadedFile (fst acc)"
  by (induction seen cells acc rule: populateFields.induct) simp_all

lemma uploadedFile_populateFormWithRecord:
  "uploadedFile (populateFormWithRecord seen cells st) = uploadedFile st"
  using uploadedFile_populateFields [of seen cells "(st, False)"]
  by (auto simp add: populateFormWithRecord_def split: prod.splits)

lemma uploadedFile_parseCSVContent:
  "uploadedFile (parseCSVContent seen content st) = uploadedFile st"
  by (simp add: parseCSVContent_def Let_def uploadedFile_populateFormWithRecord)

text \<open>
  The accepting branch: a file of an allowed type and size whose text the reader delivers
  is stored as the uploaded file.
\<close>

lemma accepted_upload_is_stored:
  "file_type file \<in> set allowedTypes \<Longrightarrow> file_size file \<le> maxSize \<Longrightarrow>
   extractFileContent file reader = Inr content \<Longrightarrow>
   uploadedFile (handleFileUpload (Some file) reader st) = Some file"
  by (simp add: handleFileUpload_def Let_def uploadedFile_parseCSVContent)

text \<open>
  Claim C10. A file is processed only if its type is one of the four allowed MIME types
  and its size is at most 10485760 bytes: a file that violates either condition gets the
  file error and changes nothing else, so it is not stored as the uploaded file and the
  form fields, the CSV records and the uploading flag stay as they were, whatever the
  file contains.
\<close>

theorem rejected_upload_changes_only_the_file_error:
  assumes "\<not> (file_type file \<in>
              {str ''text/plain'', str ''application/pdf'', str ''text/csv'',
               str ''application/json''}
            \<and> file_size file \<le> 10485760)"
  shows "hasError (errors (handleFileUpload (Some file) reader st)) ''file'' \<and>
         uploadedFile (handleFileUpload (Some file) reader st) = uploadedFile st \<and>
         formData (handleFileUpload (Some file) reader st) = formData st \<and>
         csvRecords (handleFileUpload (Some file) reader st) = csvRecords st \<and>
         isUploading (handleFileUpload (Some file) reader st) = isUploading st \<and>
         handleFileUpload (Some file) reader st =
           st\<lparr>errors := errors (handleFileUpload (Some file) reader st)\<rparr>"
proof (cases "file_type file \<in> set allowedTypes")
  case False
  show ?thesis
    by (simp add: handleFileUpload_wrong_type [OF False] hasError_update)
next
  case True
  with assms have "file_size file > maxSize"
    by (auto simp add: allowedTypes_set maxSize_bytes)
  from handleFileUpload_too_large [OF True this] show ?thesis
    by (simp add: hasError_update)
qed

theorem rejected_upload_witness:
  "hasError (errors (handleFileUpload
       (Some \<lparr>file_name = str ''a.png'', file_type = str ''image/png'', file_size = 10\<rparr>)
       (ReadText (str ''x'')) initialFormState)) ''file'' \<and>
   uploadedFile (handleFileUpload
       (Some \<lparr>file_name = str ''a.png'', file_type = str ''image/png'', file_size = 10\<rparr>)
       (ReadText (str ''x'')) initialFormState) = None \<and>
   formData (handleFileUpload
       (Some \<lparr>file_name = str ''big.txt'', file_type = str ''text/plain'',
              file_size = 10485761\<rparr>)
       (ReadText (str ''x'')) initialFormState) = initialFormData"
  using rejected_upload_changes_only_the_file_error
      [of "\<lparr>file_name = str ''a.png'', file_type = str ''image/png'', file_size = 10\<rparr>"
          "ReadText (str ''x'')" initialFormState]
    rejected_upload_changes_only_the_file_error
      [of "\<lparr>file_name = str ''big.txt'', file_type = str ''text/plain'',
            file_size = 10485761\<rparr>"
          "ReadText (str ''x'')" initialFormState]
  by (simp add: str_def initialFormState_def)

subsection \<open>Results and error\<close>

lemma truthy_errorValue: "truthy (errorValue err)"
  by (simp add: errorValue_def str_def split: option.splits)

text \<open>
  A call that runs alone does what the handler is written to do: a failure leaves
  \<open>results\<close> null and sets a truthy error, a success sets \<open>results\<close> to the response
  and leaves \<open>error\<close> null.
\<close>

lemma handleEvaluationSubmit_failure:
  "evaluate server request = Inl err \<Longrightarrow>
   handleEvaluationSubmit server request st =
     \<lparr>results = None, isLoading = False, error = Some (errorValue err)\<rparr>"
  by (simp add: handleEvaluationSubmit_def submitSettle_def submitStart_def)

lemma handleEvaluationSubmit_success:
  "evaluate server request = Inr response \<Longrightarrow>
   handleEvaluationSubmit server request st =
     \<lparr>results = Some response, isLoading = False, error = None\<rparr>"
  by (simp add: handleEvaluationSubmit_def submitSettle_def submitStart_def)

text \<open>
  Claim C6, where the code departs from it. Two submissions overlap: both calls are
  started before either settles. When the first call fails and the second succeeds,
  \<open>results\<close> and \<open>error\<close> are both set. When the first succeeds and the second fails,
  the failed call leaves \<open>results\<close> set: the results of the first request are displayed
  and the error of the second is never shown.
\<close>

theorem overlapping_submissions_set_results_and_error:
  "appRun
     [SubmitClicked, SubmitClicked,
      CallSettled (evaluate
        (\<lambda>request. \<lparr>elapsed = 900,
           answer = Inl \<lparr>detail = Some (JString (str ''No metrics completed'')),
                          message = str ''Request failed with status code 500''\<rparr>\<rparr>)
        initialFormData),
      CallSettled (evaluate
        (\<lambda>request. \<lparr>elapsed = 1200,
           answer = Inr \<lparr>accuracy = None, hallucination = None, authoritativeness = None,
                          usefulness = Some \<lparr>metric = Usefulness, rating = Good, score = S2,
                                             badge = Gold, reasoning = str ''ok''\<rparr>,
                          overall = \<lparr>overall_rating = Good, overall_score = 2,
                                      overall_badge = Gold, summary = str ''one metric''\<rparr>,
                          evaluation_id = str ''eval_1'', processing_time = 1\<rparr>\<rparr>)
        initialFormData)]
     initialAppState =
   \<lparr>results = Some \<lparr>accuracy = None, hallucination = None, authoritativeness = None,
                      usefulness = Some \<lparr>metric = Usefulness, rating = Good, score = S2,
                                         badge = Gold, reasoning = str ''ok''\<rparr>,
                      overall = \<lparr>overall_rating = Good, overall_score = 2,
                                  overall_badge = Gold, summary = str ''one metric''\<rparr>,
                      evaluation_id = str ''eval_1'', processing_time = 1\<rparr>,
    isLoading = False,
    error = Some (JString (str ''No metrics completed''))\<rparr> \<and>
   App (appRun
     [SubmitClicked, SubmitClicked,
      CallSettled (evaluate
        (\<lambda>request. \<lparr>elapsed = 900,
           answer = Inr \<lparr>accuracy = None, hallucination = None, authoritativeness = None,
                          usefulness = Some \<lparr>metric = Usefulness, rating = Good, score = S2,
                                             badge = Gold, reasoning = str ''ok''\<rparr>,
                          overall = \<lparr>overall_rating = Good, overall_score = 2,
                                      overall_badge = Gold, summary = str ''one metric''\<rparr>,
                          evaluation_id = str ''eval_1'', processing_time = 1\<rparr>\<rparr>)
        initialFormData),
      CallSettled (evaluate
        (\<lambda>request. \<lparr>elapsed = 1200,
           answer = Inl \<lparr>detail = Some (JString (str ''No metrics completed'')),
                          message = str ''Request failed with status code 500''\<rparr>\<rparr>)
        initialFormData)]
     initialAppState) =
   \<lparr>formShown = False, errorShown = None, spinnerShown = False,
    resultsShown = Some \<lparr>accuracy = None, hallucination = None, authoritativeness = None,
                      usefulness = Some \<lparr>metric = Usefulness, rating = Good, score = S2,
                                         badge = Gold, reasoning = str ''ok''\<rparr>,
                      overall = \<lparr>overall_rating = Good, overall_score = 2,
                                  overall_badge = Gold, summary = str ''one metric''\<rparr>,
                      evaluation_id = str ''eval_1'', processing_time = 1\<rparr>\<rparr>"
  by (simp add: evaluate_def post_def api_def submitStart_def submitSettle_def
        initialAppState_def errorValue_def str_def App_def)

subsection \<open>The client's timeout\<close>

lemma decimal_60000: "decimal 60000 = ''60000''"
  by (simp add: decimal.simps)

lemma timeout_api: "timeout api = 60000"
  by (simp add: api_def)

text \<open>
  Claim C7, as the code has it. The API client's evaluate call blocks for at most its own
  axios timeout of 60000 milliseconds, which is shorter than the backend's default request
  timeout of 300 seconds: an answer that takes longer than 60 seconds is reported to the
  caller as a timeout failure, and an answer within 60 seconds is passed on as it is.
\<close>

theorem evaluate_blocks_at_most_sixty_seconds:
  "timeout api = 60000 \<and> timeout api < default_request_timeout * 1000 \<and>
   (elapsed (server request) > 60000 \<longrightarrow>
      evaluate server request =
        Inl \<lparr>detail = None, message = str ''timeout of 60000ms exceeded''\<rparr>) \<and>
   (elapsed (server request) \<le> 60000 \<longrightarrow>
      evaluate server request = answer (server request))"
proof (intro conjI impI)
  show "timeout api = 60000" by (rule timeout_api)
  show "timeout api < default_request_timeout * 1000"
    by (simp add: timeout_api default_request_timeout_def)
next
  assume "elapsed (server request) > 60000"
  then show "evaluate server request =
      Inl \<lparr>detail = None, message = str ''timeout of 60000ms exceeded''\<rparr>"
    by (simp add: evaluate_def post_def timeout_api decimal_60000)
next
  assume "elapsed (server request) \<le> 60000"
  then show "evaluate server request = answer (server request)"
    by (simp add: evaluate_def post_def timeout_api)
qed

theorem evaluate_timeout_witness:
  "evaluate (\<lambda>request. \<lparr>elapsed = 250000,
       answer = Inl \<lparr>detail = None, message = str ''late''\<rparr>\<rparr>) initialFormData =
     Inl \<lparr>detail = None, message = str ''timeout of 60000ms exceeded''\<rparr> \<and>
   evaluate (\<lambda>request. \<lparr>elapsed = 20000,
       answer = Inl \<lparr>detail = None, message = str ''Network Error''\<rparr>\<rparr>) initialFormData =
     Inl \<lparr>detail = None, message = str ''Network Error''\<rparr>"
  using evaluate_blocks_at_most_sixty_seconds
      [of "\<lambda>request. \<lparr>elapsed = 250000,
         answer = Inl \<lparr>detail = None, message = str ''late''\<rparr>\<rparr>" initialFormData]
    evaluate_blocks_at_most_sixty_seconds
      [of "\<lambda>request. \<lparr>elapsed = 20000,
         answer = Inl \<lparr>detail = None, message = str ''Network Error''\<rparr>\<rparr>" initialFormData]
  by simp

text \<open>
  The claim as stated, that the call waits at least the 300 seconds of the request
  timeout before it aborts, fails: a backend that answers after 61 seconds, well inside
  its 300 seconds, finds the call already aborted by the client.
\<close>

theorem evaluate_waits_300_seconds_counterexample:
  "(61000::nat) < default_request_timeout * 1000 \<and>
   evaluate (\<lambda>request. \<lparr>elapsed = 61000,
       answer = Inr \<lparr>accuracy = None, hallucination = None, authoritativeness = None,
                      usefulness = Some \<lparr>metric = Usefulness, rating = Good, score = S2,
                                         badge = Gold, reasoning = str ''ok''\<rparr>,
                      overall = \<lparr>overall_rating = Good, overall_score = 2,
                                  overall_badge = Gold, summary = str ''one metric''\<rparr>,
                      evaluation_id = str ''eval_1'', processing_time = 61\<rparr>\<rparr>)
     initialFormData =
     Inl \<lparr>detail = None, message = str ''timeout of 60000ms exceeded''\<rparr>"
  by (simp add: evaluate_def post_def timeout_api decimal_60000 default_request_timeout_def)

subsection \<open>The canonical rating, score and badge\<close>

lemma normalise_Some:
  "normalise signal = Some s \<longleftrightarrow> signal = Some (int (score_value s))"
  by (cases s) (auto simp add: normalise_def split: option.splits)

text \<open>
  Claim C1, as the code has it. Every MetricResult the Metric Scorer produces carries one
  of the four canonical tuples (3/Great/Platinum, 2/Good/Gold, 1/Fair/Silver,
  0/Poor/Bronze) and the metric it was scored for; a signal of 0 to 3 always produces a
  result, and any other signal is a \<open>ScoringError\<close>, never a default. The type
  \<open>MetricEvaluation\<close> itself does not enforce the mapping.
\<close>

theorem scored_results_are_canonical:
  "(score_verdict m raw = Inr r \<longrightarrow>
      (score r, rating r, badge r) \<in>
        {(S3, Great, Platinum), (S2, Good, Gold), (S1, Fair, Silver), (S0, Poor, Bronze)} \<and>
      canonical r \<and> metric r = m \<and>
      ordinal_signal raw = Some (int (score_value (score r)))) \<and>
   (ordinal_signal raw \<in> {Some 0, Some 1, Some 2, Some 3} \<longrightarrow>
      (\<exists>r'. score_verdict m raw = Inr r')) \<and>
   (ordinal_signal raw \<notin> {Some 0, Some 1, Some 2, Some 3} \<longrightarrow>
      score_verdict m raw = Inl ScoringError)"
proof (intro conjI impI)
  assume a: "score_verdict m raw = Inr r"
  then obtain s where s: "normalise (ordinal_signal raw) = Some s"
    and r: "r = \<lparr>metric = m, rating = rating_of s, score = s, badge = badge_of s,
                  reasoning = verdict_reasoning raw\<rparr>"
    by (auto simp add: score_verdict_def split: option.splits)
  from r show "(score r, rating r, badge r) \<in>
      {(S3, Great, Platinum), (S2, Good, Gold), (S1, Fair, Silver), (S0, Poor, Bronze)}"
    by (cases s) simp_all
  from r show "canonical r"
    by (cases s) (simp_all add: canonical_def canonicalTuples_def)
  from r show "metric r = m" by simp
  from s r show "ordinal_signal raw = Some (int (score_value (score r)))"
    by (simp add: normalise_Some)
next
  assume "ordinal_signal raw \<in> {Some 0, Some 1, Some 2, Some 3}"
  then show "\<exists>r'. score_verdict m raw = Inr r'"
    by (auto simp add: score_verdict_def normalise_def)
next
  assume "ordinal_signal raw \<notin> {Some 0, Some 1, Some 2, Some 3}"
  then show "score_verdict m raw = Inl ScoringError"
    by (auto simp add: score_verdict_def normalise_def split: option.splits)
qed

theorem scored_results_witness:
  "score_verdict Accuracy \<lparr>verdict_reasoning = str ''correct'', ordinal_signal = Some 3\<rparr> =
     Inr \<lparr>metric = Accuracy, rating = Great, score = S3, badge = Platinum,
          reasoning = str ''correct''\<rparr> \<and>
   canonical \<lparr>metric = Accuracy, rating = Great, score = S3, badge = Platinum,
          reasoning = str ''correct''\<rparr> \<and>
   score_verdict Usefulness \<lparr>verdict_reasoning = str ''?'', ordinal_signal = Some 7\<rparr> =
     Inl ScoringError"
  using scored_results_are_canonical
      [of Accuracy "\<lparr>verdict_reasoning = str ''correct'', ordinal_signal = Some 3\<rparr>"
          "\<lparr>metric = Accuracy, rating = Great, score = S3, badge = Platinum,
            reasoning = str ''correct''\<rparr>"]
    scored_results_are_canonical
      [of Usefulness "\<lparr>verdict_reasoning = str ''?'', ordinal_signal = Some 7\<rparr>"]
  by (simp add: score_verdict_def normalise_def)

text \<open>
  The claim as stated, that no other combination is representable or accepted, fails on
  the response type: score 3 with rating Poor and badge Bronze is a value of
  \<open>MetricEvaluation\<close>, and a response that carries it is taken into the application state
  and displayed field by field.
\<close>

theorem noncanonical_result_counterexample:
  "\<not> canonical \<lparr>metric = Accuracy, rating = Poor, score = S3, badge = Bronze,
                  reasoning = str ''mixed''\<rparr> \<and>
   results (handleEvaluationSubmit
      (\<lambda>request. \<lparr>elapsed = 1500,
         answer = Inr \<lparr>accuracy = Some \<lparr>metric = Accuracy, rating = Poor, score = S3,
                                        badge = Bronze, reasoning = str ''mixed''\<rparr>,
                        hallucination = None, authoritativeness = None, usefulness = None,
                        overall = \<lparr>overall_rating = Great, overall_score = 3,
                                    overall_badge = Platinum, summary = str ''one metric''\<rparr>,
                        evaluation_id = str ''eval_2'', processing_time = 3 / 2\<rparr>\<rparr>)
      initialFormData initialAppState) =
     Some \<lparr>accuracy = Some \<lparr>metric = Accuracy, rating = Poor, score = S3,
                              badge = Bronze, reasoning = str ''mixed''\<rparr>,
           hallucination = None, authoritativeness = None, usefulness = None,
           overall = \<lparr>overall_rating = Great, overall_score = 3,
                       overall_badge = Platinum, summary = str ''one metric''\<rparr>,
           evaluation_id = str ''eval_2'', processing_time = 3 / 2\<rparr> \<and>
   cards (ResultsDisplay
      \<lparr>accuracy = Some \<lparr>metric = Accuracy, rating = Poor, score = S3,
                         badge = Bronze, reasoning = str ''mixed''\<rparr>,
       hallucination = None, authoritativeness = None, usefulness = None,
       overall = \<lparr>overall_rating = Great, overall_score = 3,
                   overall_badge = Platinum, summary = str ''one metric''\<rparr>,
       evaluation_id = str ''eval_2'', processing_time = 3 / 2\<rparr>) =
     [\<lparr>card_key = ''accuracy'', card_metric = Accuracy, card_badge = Bronze,
       card_badgeClass = ''metric-bronze'', card_score = 3, card_rating = Poor,
       card_reasoning = str ''mixed''\<rparr>]"
  by (simp add: canonical_def canonicalTuples_def handleEvaluationSubmit_def submitSettle_def
        submitStart_def evaluate_def post_def api_def initialAppState_def ResultsDisplay_def
        metrics_def metricCard_def getBadgeClass_def)

subsection \<open>Aggregation\<close>

lemma tally_completed:
  "tally rs (p, n) =
     (p + sum_list (map (\<lambda>e. score_value (score e)) (completed rs)),
      n + length (completed rs))"
  by (induction rs "(p, n)" arbitrary: p n rule: tally.induct)
     (simp_all add: completed_def)

text \<open>With no completed metric the aggregator fails; it does not make up a result.\<close>

lemma aggregate_none_completed:
  "completed rs = [] \<Longrightarrow> aggregate template rs = Inl NoMetricsCompleted"
  by (simp add: aggregate_def tally_completed [of rs 0 0, simplified])

lemma bucket_cases:
  "(mean \<ge> 5 / 2 \<longrightarrow> bucket mean = S3) \<and>
   (3 / 2 \<le> mean \<and> mean < 5 / 2 \<longrightarrow> bucket mean = S2) \<and>
   (1 / 2 \<le> mean \<and> mean < 3 / 2 \<longrightarrow> bucket mean = S1) \<and>
   (mean < 1 / 2 \<longrightarrow> bucket mean = S0)"
  by (auto simp add: bucket_def)

text \<open>
  Claim C2. For every list of results with at least one completed metric, aggregation
  returns an overall result whose score is the arithmetic mean of the scores of the
  completed metrics only (failures enter neither the sum nor the count), and whose
  rating and badge follow the thresholds 2.5, 1.5 and 0.5.
\<close>

theorem aggregate_is_mean_of_completed:
  assumes "completed rs \<noteq> []"
  shows "\<exists>ov. aggregate template rs = Inr ov \<and>
     overall_score ov =
       of_nat (sum_list (map (\<lambda>e. score_value (score e)) (completed rs)))
         / of_nat (length (completed rs)) \<and>
     (overall_score ov \<ge> 5 / 2 \<longrightarrow>
        overall_rating ov = Great \<and> overall_badge ov = Platinum) \<and>
     (3 / 2 \<le> overall_score ov \<and> overall_score ov < 5 / 2 \<longrightarrow>
        overall_rating ov = Good \<and> overall_badge ov = Gold) \<and>
     (1 / 2 \<le> overall_score ov \<and> overall_score ov < 3 / 2 \<longrightarrow>
        overall_rating ov = Fair \<and> overall_badge ov = Silver) \<and>
     (overall_score ov < 1 / 2 \<longrightarrow>
        overall_rating ov = Poor \<and> overall_badge ov = Bronze)"
proof -
  define mean :: rat where
    "mean = of_nat (sum_list (map (\<lambda>e. score_value (score e)) (completed rs)))
              / of_nat (length (completed rs))"
  from assms have n: "length (completed rs) \<noteq> 0" by simp
  have "aggregate template rs =
      Inr \<lparr>overall_rating = rating_of (bucket mean), overall_score = mean,
           overall_badge = badge_of (bucket mean),
           summary = template (contributors rs) (length rs) (rating_of (bucket mean))\<rparr>"
    using n by (simp add: aggregate_def tally_completed [of rs 0 0, simplified] mean_def Let_def)
  moreover have "mean \<ge> 5 / 2 \<longrightarrow> rating_of (bucket mean) = Great \<and> badge_of (bucket mean) = Platinum"
    using bucket_cases [of mean] by simp
  moreover have "3 / 2 \<le> mean \<and> mean < 5 / 2 \<longrightarrow>
      rating_of (bucket mean) = Good \<and> badge_of (bucket mean) = Gold"
    using bucket_cases [of mean] by simp
  moreover have "1 / 2 \<le> mean \<and> mean < 3 / 2 \<longrightarrow>
      rating_of (bucket mean) = Fair \<and> badge_of (bucket mean) = Silver"
    using bucket_cases [of mean] by simp
  moreover have "mean < 1 / 2 \<longrightarrow> rating_of (bucket mean) = Poor \<and> badge_of (bucket mean) = Bronze"
    using bucket_cases [of mean] by simp
  ultimately show ?thesis
    unfolding mean_def [symmetric] by simp
qed

text \<open>
  One evaluator timed out and three completed with scores 3, 3 and 2: the overall score
  is 8/3, which is 2.667 to three places, not 8/4.
\<close>

theorem aggregate_witness:
  "completed
      [Inl Timeout,
       Inr \<lparr>metric = Accuracy, rating = Great, score = S3, badge = Platinum, reasoning = []\<rparr>,
       Inr \<lparr>metric = Hallucination, rating = Great, score = S3, badge = Platinum,
            reasoning = []\<rparr>,
       Inr \<lparr>metric = Usefulness, rating = Good, score = S2, badge = Gold, reasoning = []\<rparr>] \<noteq> [] \<and>
   aggregate (\<lambda>ms n r. str ''summary'')
      [Inl Timeout,
       Inr \<lparr>metric = Accuracy, rating = Great, score = S3, badge = Platinum, reasoning = []\<rparr>,
       Inr \<lparr>metric = Hallucination, rating = Great, score = S3, badge = Platinum,
            reasoning = []\<rparr>,
       Inr \<lparr>metric = Usefulness, rating = Good, score = S2, badge = Gold, reasoning = []\<rparr>] =
     Inr \<lparr>overall_rating = Great, overall_score = 8 / 3, overall_badge = Platinum,
          summary = str ''summary''\<rparr> \<and>
   \<bar>(8 / 3 :: rat) - 2667 / 1000\<bar> < 1 / 2000"
  using aggregate_is_mean_of_completed
      [of "[Inl Timeout,
       Inr \<lparr>metric = Accuracy, rating = Great, score = S3, badge = Platinum, reasoning = []\<rparr>,
       Inr \<lparr>metric = Hallucination, rating = Great, score = S3, badge = Platinum,
            reasoning = []\<rparr>,
       Inr \<lparr>metric = Usefulness, rating = Good, score = S2, badge = Gold, reasoning = []\<rparr>]" "\<lambda>ms n r. str ''summary''"]
  by (simp add: completed_def aggregate_def bucket_def)

subsection \<open>The concurrency gate\<close>

lemma gate_ceiling_gateStep: "gate_ceiling (fst (gateStep e g)) = gate_ceiling g"
  by (cases e) (auto split: list.splits)

lemma length_remove1_admitted:
  "r \<in> set xs \<Longrightarrow> Suc (length (remove1 r xs)) = length xs"
  by (simp add: length_remove1) (metis One_nat_def Suc_pred length_pos_if_in_set)

lemma gate_ok_gateStep: "gate_ok g \<Longrightarrow> gate_ok (fst (gateStep e g))"
proof (cases e)
  case (Arrive r)
  assume "gate_ok g"
  with Arrive show ?thesis by (auto simp add: gate_ok_def)
next
  case (Release r)
  assume ok: "gate_ok g"
  show ?thesis
  proof (cases "r \<in> set (admitted g)")
    case False
    with Release ok show ?thesis by simp
  next
    case True
    from length_remove1_admitted [OF True]
    have l: "Suc (length (remove1 r (admitted g))) = length (admitted g)" .
    with Release True ok show ?thesis
      by (cases "waiting g") (auto simp add: gate_ok_def)
  qed
next
  case (Expire r)
  assume "gate_ok g"
  with Expire show ?thesis by (auto simp add: gate_ok_def)
qed

lemma gate_ok_gateRun: "gate_ok g \<Longrightarrow> gate_ok (gateRun es g)"
  by (induction es arbitrary: g) (simp_all add: gate_ok_gateStep)

lemma gate_ceiling_gateRun: "gate_ceiling (gateRun es g) = gate_ceiling g"
  by (induction es arbitrary: g) (simp_all add: gate_ceiling_gateStep)

lemma gate_ok_newGate: "gate_ok (newGate n)"
  by (simp add: gate_ok_def newGate_def)

lemma gateStep_Fail:
  "Fail r err \<in> set (snd (gateStep e g)) \<Longrightarrow>
   e = Expire r \<and> r \<in> set (waiting g) \<and> err = Overloaded"
  by (cases e) (auto split: if_splits list.splits)

text \<open>
  Claim C3. With ceiling \<open>n\<close>, in every state the gate reaches no more than \<open>n\<close>
  requests hold a permit, and a request waits only while all \<open>n\<close> permits are taken. A
  request that arrives at a full gate is put at the back of the queue and told to wait;
  a release admits the request at the front. The gate fails a request only when that
  request's outer timeout expires while it is still queued, and then with \<open>Overloaded\<close>.
\<close>

theorem gate_never_exceeds_ceiling:
  "length (admitted (gateRun es (newGate n))) \<le> n \<and>
   (waiting (gateRun es (newGate n)) = [] \<or>
    length (admitted (gateRun es (newGate n))) = n) \<and>
   (length (admitted g) < gate_ceiling g \<longrightarrow>
      gateStep (Arrive r) g = (g\<lparr>admitted := admitted g @ [r]\<rparr>, [Permit r])) \<and>
   (gate_ceiling g \<le> length (admitted g) \<longrightarrow>
      gateStep (Arrive r) g = (g\<lparr>waiting := waiting g @ [r]\<rparr>, [Wait r])) \<and>
   (q \<in> set (admitted g) \<and> waiting g = w # ws \<longrightarrow>
      gateStep (Release q) g =
        (g\<lparr>admitted := remove1 q (admitted g) @ [w], waiting := ws\<rparr>, [Permit w])) \<and>
   (Fail x err \<in> set (snd (gateStep e g)) \<longrightarrow>
      e = Expire x \<and> x \<in> set (waiting g) \<and> err = Overloaded) \<and>
   (x \<in> set (waiting g) \<longrightarrow>
      gateStep (Expire x) g = (g\<lparr>waiting := remove1 x (waiting g)\<rparr>, [Fail x Overloaded]))"
proof -
  have ok: "gate_ok (gateRun es (newGate n))"
    by (rule gate_ok_gateRun [OF gate_ok_newGate])
  have c: "gate_ceiling (gateRun es (newGate n)) = n"
    by (simp add: gate_ceiling_gateRun newGate_def)
  from ok c have "length (admitted (gateRun es (newGate n))) \<le> n"
    and "waiting (gateRun es (newGate n)) = [] \<or>
      length (admitted (gateRun es (newGate n))) = n"
    by (simp_all add: gate_ok_def)
  moreover have "Fail x err \<in> set (snd (gateStep e g)) \<longrightarrow>
      e = Expire x \<and> x \<in> set (waiting g) \<and> err = Overloaded"
    using gateStep_Fail by blast
  ultimately show ?thesis by simp
qed

theorem gate_witness:
  "gateRun [Arrive 1, Arrive 2, Arrive 3, Arrive 4, Arrive 5, Arrive 6]
      (newGate default_ceiling) =
     \<lparr>gate_ceiling = 5, admitted = [1, 2, 3, 4, 5], waiting = [6]\<rparr> \<and>
   gateStep (Arrive 7) \<lparr>gate_ceiling = 5, admitted = [1, 2, 3, 4, 5], waiting = [6]\<rparr> =
     (\<lparr>gate_ceiling = 5, admitted = [1, 2, 3, 4, 5], waiting = [6, 7]\<rparr>, [Wait 7]) \<and>
   gateStep (Release 1) \<lparr>gate_ceiling = 5, admitted = [1, 2, 3, 4, 5], waiting = [6]\<rparr> =
     (\<lparr>gate_ceiling = 5, admitted = [2, 3, 4, 5, 6], waiting = []\<rparr>, [Permit 6]) \<and>
   gateStep (Expire 6) \<lparr>gate_ceiling = 5, admitted = [1, 2, 3, 4, 5], waiting = [6]\<rparr> =
     (\<lparr>gate_ceiling = 5, admitted = [1, 2, 3, 4, 5], waiting = []\<rparr>, [Fail 6 Overloaded]) \<and>
   gateStep (Arrive 8) \<lparr>gate_ceiling = 5, admitted = [1, 3, 4, 5], waiting = []\<rparr> =
     (\<lparr>gate_ceiling = 5, admitted = [1, 3, 4, 5, 8], waiting = []\<rparr>, [Permit 8])"
  using gate_never_exceeds_ceiling
      [where es = "[Arrive 1, Arrive 2, Arrive 3, Arrive 4, Arrive 5, Arrive 6]"
         and n = default_ceiling
         and g = "\<lparr>gate_ceiling = 5, admitted = [1, 2, 3, 4, 5], waiting = [6]\<rparr>"
         and r = 7 and q = 1 and w = 6 and ws = "[]" and x = 6 and e = "Expire 6"
         and err = Overloaded]
    gate_never_exceeds_ceiling
      [where g = "\<lparr>gate_ceiling = 5, admitted = [1, 3, 4, 5], waiting = []\<rparr>" and r = 8]
  by (simp add: newGate_def default_ceiling_def)

subsection \<open>A single-metric response and its display\<close>








end
